theory Spec2Isabelle
  imports Main
begin

section \<open>JavaScript values\<close>

text \<open>
  The values that flow through \<^verbatim>\<open>src/app/App.tsx\<close> are plain JavaScript data:
  the Redux state tree, the table descriptors and configuration objects a host supplies,
  and whatever \<^verbatim>\<open>JSON.parse\<close> returns. An object is the list of its own
  properties in enumeration order; a string is a list of 8-bit characters.

  A number is a double of IEEE 754: \<^verbatim>\<open>NaN\<close>, an infinity, zero, negative zero,
  or a finite number \<open>Fin neg m t\<close> other than zero, whose value is
  \<open>m \<times> 2\<^sup>t \<times> 2\<^sup>-\<^sup>1\<^sup>0\<^sup>7\<^sup>4\<close>, negated when \<open>neg\<close>; \<open>2\<^sup>-\<^sup>1\<^sup>0\<^sup>7\<^sup>4\<close> is the least
  positive double. \<open>is_double\<close> says which \<open>m\<close> and \<open>t\<close> a double has: 53 bits of
  significand, the leading bit set unless the exponent is the least one, and the
  exponent up to that of the largest double.
\<close>

datatype jsnum = NaN | PosInf | NegInf | Zero | NegZero | Fin bool nat nat


datatype jsval =
    JUndefined
  | JNull
  | JBool bool
  | JNum jsnum
  | JStr string
  | JArr "jsval list"
  | JObj "(string \<times> jsval) list"

text \<open>An exception thrown by the language runtime.\<close>

datatype js_error = TypeError | SyntaxError

subsection \<open>Number to string\<close>

definition is_digit :: "char \<Rightarrow> bool" where
  "is_digit c = (c \<in> set ''0123456789'')"

definition digit_char :: "nat \<Rightarrow> char" where
  "digit_char d = char_of (48 + d)"

definition digit_val :: "char \<Rightarrow> nat" where
  "digit_val c = of_char c - 48"

function show_nat :: "nat \<Rightarrow> string" where
  "show_nat n = (if n < 10 then [digit_char n] else show_nat (n div 10) @ [digit_char (n mod 10)])"
  by pat_completeness auto
termination
  by (relation "measure id") auto

declare show_nat.simps [simp del]

definition read_nat :: "string \<Rightarrow> nat" where
  "read_nat ds = foldl (\<lambda>a c. 10 * a + digit_val c) 0 ds"

text \<open>
  \<^verbatim>\<open>Number::toString\<close> in radix 10, for \<open>k\<close> digits and exponent \<open>n\<close>: plain
  notation when \<open>-5 \<le> n \<le> 21\<close> (the digits followed by zeros, the digits with a
  decimal point inside, or \<^verbatim>\<open>0.\<close>, zeros and the digits), exponential notation
  otherwise.
\<close>

definition show_dec :: "string \<Rightarrow> int \<Rightarrow> string" where
  "show_dec ds n =
     (let k = int (length ds) in
      if -5 \<le> n \<and> n \<le> 21 then
        (if k \<le> n then ds @ replicate (nat (n - k)) (CHR ''0'')
         else if 0 < n then take (nat n) ds @ ''.'' @ drop (nat n) ds
         else ''0.'' @ replicate (nat (- n)) (CHR ''0'') @ ds)
      else
        (let e = n - 1 in
         take 1 ds @ (if k = 1 then [] else ''.'' @ drop 1 ds) @ ''e''
           @ (if 0 \<le> e then ''+'' else ''-'') @ show_nat (nat \<bar>e\<bar>)))"

subsection \<open>The Number value of a decimal\<close>

text \<open>
  The double nearest to \<open>N / D\<close>, as \<open>(m, t)\<close>: the quotient is scaled by
  \<open>2\<^sup>1\<^sup>0\<^sup>7\<^sup>4\<close>, the exponent \<open>t\<close> is chosen so that the significand has 53 bits
  (or \<open>t = 0\<close>), and the significand is rounded to the nearest integer, to the even one
  of two that are equally near. A significand that rounds up to \<open>2\<^sup>5\<^sup>3\<close> moves to the
  next exponent.
\<close>

function bit_length :: "nat \<Rightarrow> nat" where
  "bit_length n = (if n = 0 then 0 else Suc (bit_length (n div 2)))"
  by pat_completeness auto
termination
  by (relation "measure id") auto

declare bit_length.simps [simp del]

definition round_half_even :: "nat \<Rightarrow> nat \<Rightarrow> nat" where
  "round_half_even a b =
     (let q = a div b; r = a mod b
      in if 2 * r < b then q else if b < 2 * r then q + 1 else if even q then q else q + 1)"

definition round_pos :: "nat \<Rightarrow> nat \<Rightarrow> nat \<times> nat" where
  "round_pos N D =
     (let A = N * 2 ^ 1074;
          t = bit_length (A div D) - 53;
          m = round_half_even A (D * 2 ^ t)
      in if m = 2 ^ 53 then (2 ^ 52, t + 1) else (m, t))"

text \<open>
  The Number value of \<open>s \<times> 10\<^sup>p\<close>, negated when \<open>neg\<close>: the nearest double, a zero
  of that sign when the value is too small, an infinity when it is too large.
\<close>

definition to_double :: "bool \<Rightarrow> nat \<Rightarrow> int \<Rightarrow> jsnum" where
  "to_double neg s p =
     (case (if 0 \<le> p then round_pos (s * 10 ^ nat p) 1 else round_pos s (10 ^ nat (- p))) of
        (m, t) \<Rightarrow>
          if m = 0 then (if neg then NegZero else Zero)
          else if 2045 < t then (if neg then NegInf else PosInf)
          else Fin neg m t)"

subsection \<open>The digits of a number\<close>

text \<open>
  \<^verbatim>\<open>Number::toString\<close> works from integers \<open>n\<close>, \<open>k\<close> and \<open>s\<close> with \<open>k\<close> digits
  in \<open>s\<close>, such that the Number value of \<open>s \<times> 10\<^sup>n\<^sup>-\<^sup>k\<close> is the number, \<open>k\<close> is as
  small as possible, and \<open>s \<times> 10\<^sup>n\<^sup>-\<^sup>k\<close> is as close to the number as possible.

  \<open>decimal_exponent\<close> is \<open>n + 400\<close> for the number \<open>m \<times> 2\<^sup>t \<times> 2\<^sup>-\<^sup>1\<^sup>0\<^sup>7\<^sup>4\<close> (the
  scaling by \<open>10\<^sup>4\<^sup>0\<^sup>0\<close> keeps the computation in the natural numbers).
  \<open>candidates m t k\<close> are the two decimals of \<open>k\<close> digits next to the number, the one
  below and the one above, the closer one first, each as \<open>(s, p)\<close> for \<open>s \<times> 10\<^sup>p\<close>.
  \<open>shortest\<close> is the first candidate, for \<open>k\<close> from 1, whose Number value is the
  number. A double has one among those of 17 digits (lemma \<open>shortest_rounds\<close>), so
  the other case is met by no number of the language.
\<close>

definition decimal_exponent :: "nat \<Rightarrow> nat \<Rightarrow> nat" where
  "decimal_exponent m t = length (show_nat (m * 2 ^ t * 10 ^ 400 div 2 ^ 1074))"

definition candidates :: "nat \<Rightarrow> nat \<Rightarrow> nat \<Rightarrow> (nat \<times> int) list" where
  "candidates m t k =
     (let F = m * 2 ^ t * 10 ^ 400;
          j = decimal_exponent m t - k;
          U = 2 ^ 1074 * 10 ^ j;
          lo = F div U;
          p = int j - 400;
          below = (lo, p);
          above = (if lo + 1 = 10 ^ k then (10 ^ (k - 1), p + 1) else (lo + 1, p))
      in if 2 * F < (2 * lo + 1) * U \<or> (2 * F = (2 * lo + 1) * U \<and> even lo)
         then [below, above] else [above, below])"

definition shortest :: "bool \<Rightarrow> nat \<Rightarrow> nat \<Rightarrow> nat \<times> int" where
  "shortest neg m t =
     (case List.find (\<lambda>c. to_double neg (fst c) (snd c) = Fin neg m t)
             (concat (map (candidates m t) [1..<18])) of
        Some c \<Rightarrow> c
      | None \<Rightarrow> hd (candidates m t 17))"

fun show_num :: "jsnum \<Rightarrow> string" where
  "show_num NaN = ''NaN''"
| "show_num PosInf = ''Infinity''"
| "show_num NegInf = ''-Infinity''"
| "show_num Zero = ''0''"
| "show_num NegZero = ''0''"
| "show_num (Fin neg m t) =
     (case shortest neg m t of
        (s, p) \<Rightarrow>
          (if neg then ''-'' else []) @ show_dec (show_nat s) (p + int (length (show_nat s))))"

section \<open>JSON.stringify\<close>

text \<open>
  \<^verbatim>\<open>QuoteJSONString\<close>: the two-character escapes, \<^verbatim>\<open>\u00xx\<close> for the other
  control characters, every other character as it is.
\<close>

definition hex_digit :: "nat \<Rightarrow> char" where
  "hex_digit d = ''0123456789abcdef'' ! (d mod 16)"

definition escape_char :: "char \<Rightarrow> string" where
  "escape_char c =
     (if c = CHR 0x08 then [CHR 0x5C, CHR ''b'']
      else if c = CHR 0x09 then [CHR 0x5C, CHR ''t'']
      else if c = CHR 0x0A then [CHR 0x5C, CHR ''n'']
      else if c = CHR 0x0C then [CHR 0x5C, CHR ''f'']
      else if c = CHR 0x0D then [CHR 0x5C, CHR ''r'']
      else if c = CHR 0x22 then [CHR 0x5C, CHR 0x22]
      else if c = CHR 0x5C then [CHR 0x5C, CHR 0x5C]
      else if (of_char c :: nat) < 32 then
        [CHR 0x5C, CHR ''u'', CHR ''0'', CHR ''0'',
         hex_digit (of_char c div 16), hex_digit (of_char c mod 16)]
      else [c])"

definition quote :: "string \<Rightarrow> string" where
  "quote s = CHR 0x22 # concat (map escape_char s) @ [CHR 0x22]"

fun intercalate :: "string \<Rightarrow> string list \<Rightarrow> string" where
  "intercalate sep [] = []"
| "intercalate sep [x] = x"
| "intercalate sep (x # y # ys) = x @ sep @ intercalate sep (y # ys)"



section \<open>JSON.parse\<close>

text \<open>
  A recursive-descent parser for the JSON grammar: white space between tokens, string
  literals with their escapes, number literals with fraction and exponent, the three
  literal names, arrays and objects. A repeated property name keeps its first position
  and takes the last value; properties are kept in the order of the text, also those
  named like array indices, which the language would enumerate first. An escape \<^verbatim>\<open>\uXXXX\<close> above \<^verbatim>\<open>\u00ff\<close> is outside
  the 8-bit characters: its low byte is kept.
\<close>

definition is_ws :: "char \<Rightarrow> bool" where
  "is_ws c = (c = CHR '' '' \<or> c = CHR 0x09 \<or> c = CHR 0x0A \<or> c = CHR 0x0D)"

definition skip_ws :: "string \<Rightarrow> string" where
  "skip_ws s = dropWhile is_ws s"

definition hex_val :: "char \<Rightarrow> nat option" where
  "hex_val c =
     (if is_digit c then Some (of_char c - 48)
      else if c \<in> set ''abcdef'' then Some (of_char c - 87)
      else if c \<in> set ''ABCDEF'' then Some (of_char c - 55)
      else None)"

definition unescape :: "char \<Rightarrow> char option" where
  "unescape e =
     (if e = CHR 0x22 then Some (CHR 0x22)
      else if e = CHR 0x5C then Some (CHR 0x5C)
      else if e = CHR ''/'' then Some (CHR ''/'')
      else if e = CHR ''b'' then Some (CHR 0x08)
      else if e = CHR ''f'' then Some (CHR 0x0C)
      else if e = CHR ''n'' then Some (CHR 0x0A)
      else if e = CHR ''r'' then Some (CHR 0x0D)
      else if e = CHR ''t'' then Some (CHR 0x09)
      else None)"

definition cons_char :: "char \<Rightarrow> js_error + string \<times> string \<Rightarrow> js_error + string \<times> string" where
  "cons_char c r = (case r of Inl e \<Rightarrow> Inl e | Inr (str, rest) \<Rightarrow> Inr (c # str, rest))"

fun parse_chars :: "string \<Rightarrow> js_error + string \<times> string" where
  "parse_chars [] = Inl SyntaxError"
| "parse_chars (c # cs) =
     (if c = CHR 0x22 then Inr ([], cs)
      else if c = CHR 0x5C then
        (case cs of
           [] \<Rightarrow> Inl SyntaxError
         | e # cs1 \<Rightarrow>
             if e = CHR ''u'' then
               (case cs1 of
                  h1 # h2 # h3 # h4 # cs2 \<Rightarrow>
                    (case (hex_val h1, hex_val h2, hex_val h3, hex_val h4) of
                       (Some a, Some b, Some c', Some d) \<Rightarrow>
                         cons_char (char_of (((a * 16 + b) * 16 + c') * 16 + d)) (parse_chars cs2)
                     | _ \<Rightarrow> Inl SyntaxError)
                | _ \<Rightarrow> Inl SyntaxError)
             else
               (case unescape e of
                  None \<Rightarrow> Inl SyntaxError
                | Some ch \<Rightarrow> cons_char ch (parse_chars cs1)))
      else if (of_char c :: nat) < 32 then Inl SyntaxError
      else cons_char c (parse_chars cs))"

text \<open>
  The value of a number literal with the digits \<open>ip\<close> before the point, the digits
  \<open>fp\<close> after it and the exponent \<open>e\<close>: the Number value of the decimal that the
  literal denotes. So \<^verbatim>\<open>-0\<close> is negative zero, \<^verbatim>\<open>1e400\<close> is
  \<^verbatim>\<open>Infinity\<close>, and a literal of many digits is rounded.
\<close>

definition mk_num :: "bool \<Rightarrow> string \<Rightarrow> string \<Rightarrow> int \<Rightarrow> jsnum" where
  "mk_num neg ip fp e = to_double neg (read_nat (ip @ fp)) (e - int (length fp))"

definition parse_exponent :: "bool \<Rightarrow> string \<Rightarrow> string \<Rightarrow> string \<Rightarrow> js_error + jsnum \<times> string" where
  "parse_exponent neg ip fp s =
     (case s of
        [] \<Rightarrow> Inr (mk_num neg ip fp 0, s)
      | c # s1 \<Rightarrow>
          if c = CHR ''e'' \<or> c = CHR ''E'' then
            (let eneg = (s1 \<noteq> [] \<and> hd s1 = CHR ''-'');
                 epos = (s1 \<noteq> [] \<and> hd s1 = CHR ''+'');
                 s2 = (if eneg \<or> epos then tl s1 else s1);
                 ed = takeWhile is_digit s2
             in if ed = [] then Inl SyntaxError
                else Inr (mk_num neg ip fp
                            (if eneg then - int (read_nat ed) else int (read_nat ed)),
                          dropWhile is_digit s2))
          else Inr (mk_num neg ip fp 0, s))"

definition parse_fraction :: "bool \<Rightarrow> string \<Rightarrow> string \<Rightarrow> js_error + jsnum \<times> string" where
  "parse_fraction neg ip s =
     (case s of
        [] \<Rightarrow> parse_exponent neg ip [] s
      | c # s1 \<Rightarrow>
          if c = CHR ''.'' then
            (let fp = takeWhile is_digit s1
             in if fp = [] then Inl SyntaxError
                else parse_exponent neg ip fp (dropWhile is_digit s1))
          else parse_exponent neg ip [] s)"

definition parse_integer :: "bool \<Rightarrow> string \<Rightarrow> js_error + jsnum \<times> string" where
  "parse_integer neg s =
     (let ip = takeWhile is_digit s
      in if ip = [] \<or> (hd ip = CHR ''0'' \<and> 1 < length ip) then Inl SyntaxError
         else parse_fraction neg ip (dropWhile is_digit s))"

definition parse_number :: "string \<Rightarrow> js_error + jsnum \<times> string" where
  "parse_number s =
     (case s of
        [] \<Rightarrow> Inl SyntaxError
      | c # s1 \<Rightarrow> if c = CHR ''-'' then parse_integer True s1 else parse_integer False s)"

definition parse_scalar :: "string \<Rightarrow> js_error + jsval \<times> string" where
  "parse_scalar s =
     (case s of
        [] \<Rightarrow> Inl SyntaxError
      | c # cs \<Rightarrow>
          if c = CHR 0x22 then
            (case parse_chars cs of Inl e \<Rightarrow> Inl e | Inr (str, r) \<Rightarrow> Inr (JStr str, r))
          else if take 4 s = ''true'' then Inr (JBool True, drop 4 s)
          else if take 5 s = ''false'' then Inr (JBool False, drop 5 s)
          else if take 4 s = ''null'' then Inr (JNull, drop 4 s)
          else if c = CHR ''-'' \<or> is_digit c then
            (case parse_number s of Inl e \<Rightarrow> Inl e | Inr (x, r) \<Rightarrow> Inr (JNum x, r))
          else Inl SyntaxError)"

fun set_prop :: "string \<Rightarrow> jsval \<Rightarrow> (string \<times> jsval) list \<Rightarrow> (string \<times> jsval) list" where
  "set_prop k v [] = [(k, v)]"
| "set_prop k v (p # ps) = (if fst p = k then (k, v) # ps else p # set_prop k v ps)"

text \<open>
  Arrays and objects nest, so the three parsers of values, of the elements of an array
  and of the members of an object are defined with a fuel argument, decreased at every
  call; \<open>None\<close> is the result of running out of fuel. \<open>JSON_parse\<close> starts with
  fuel that the text cannot use up (lemma \<open>parse_value_fuel\<close> below).
\<close>

fun parse_value :: "nat \<Rightarrow> string \<Rightarrow> (js_error + jsval \<times> string) option"
and parse_elements :: "nat \<Rightarrow> jsval list \<Rightarrow> string \<Rightarrow> (js_error + jsval \<times> string) option"
and parse_members :: "nat \<Rightarrow> (string \<times> jsval) list \<Rightarrow> string \<Rightarrow> (js_error + jsval \<times> string) option"
where
  "parse_value 0 s = None"
| "parse_value (Suc n) s =
     (case s of
        [] \<Rightarrow> Some (Inl SyntaxError)
      | c # cs \<Rightarrow>
          if c = CHR ''['' then
            (case skip_ws cs of
               [] \<Rightarrow> Some (Inl SyntaxError)
             | d # r \<Rightarrow>
                 if d = CHR '']'' then Some (Inr (JArr [], r))
                 else parse_elements n [] (d # r))
          else if c = CHR ''{'' then
            (case skip_ws cs of
               [] \<Rightarrow> Some (Inl SyntaxError)
             | d # r \<Rightarrow>
                 if d = CHR ''}'' then Some (Inr (JObj [], r))
                 else parse_members n [] (d # r))
          else Some (parse_scalar s))"
| "parse_elements 0 acc s = None"
| "parse_elements (Suc n) acc s =
     (case parse_value n s of
        None \<Rightarrow> None
      | Some (Inl e) \<Rightarrow> Some (Inl e)
      | Some (Inr (v, r)) \<Rightarrow>
          (case skip_ws r of
             [] \<Rightarrow> Some (Inl SyntaxError)
           | d # r' \<Rightarrow>
               if d = CHR '','' then parse_elements n (acc @ [v]) (skip_ws r')
               else if d = CHR '']'' then Some (Inr (JArr (acc @ [v]), r'))
               else Some (Inl SyntaxError)))"
| "parse_members 0 acc s = None"
| "parse_members (Suc n) acc s =
     (case s of
        [] \<Rightarrow> Some (Inl SyntaxError)
      | q # s1 \<Rightarrow>
          if q \<noteq> CHR 0x22 then Some (Inl SyntaxError)
          else
            (case parse_chars s1 of
               Inl e \<Rightarrow> Some (Inl e)
             | Inr (k, s2) \<Rightarrow>
                 (case skip_ws s2 of
                    [] \<Rightarrow> Some (Inl SyntaxError)
                  | col # s3 \<Rightarrow>
                      if col \<noteq> CHR '':'' then Some (Inl SyntaxError)
                      else
                        (case parse_value n (skip_ws s3) of
                           None \<Rightarrow> None
                         | Some (Inl e) \<Rightarrow> Some (Inl e)
                         | Some (Inr (v, r)) \<Rightarrow>
                             (case skip_ws r of
                                [] \<Rightarrow> Some (Inl SyntaxError)
                              | d # r' \<Rightarrow>
                                  if d = CHR '','' then
                                    parse_members n (set_prop k v acc) (skip_ws r')
                                  else if d = CHR ''}'' then
                                    Some (Inr (JObj (set_prop k v acc), r'))
                                  else Some (Inl SyntaxError))))))"

definition JSON_parse :: "string \<Rightarrow> js_error + jsval" where
  "JSON_parse txt =
     (case parse_value (2 * length txt + 2) (skip_ws txt) of
        None \<Rightarrow> Inl SyntaxError
      | Some (Inl e) \<Rightarrow> Inl e
      | Some (Inr (v, r)) \<Rightarrow> if skip_ws r = [] then Inr v else Inl SyntaxError)"

section \<open>Operators of the language used by the component\<close>

text \<open>
  Truthiness (\<^verbatim>\<open>ToBoolean\<close>): \<^verbatim>\<open>undefined\<close>, \<^verbatim>\<open>null\<close>, \<^verbatim>\<open>false\<close>,
  zero, negative zero, \<^verbatim>\<open>NaN\<close> and the empty string are falsy; everything else, every object and
  array included, is truthy.
\<close>

fun truthy :: "jsval \<Rightarrow> bool" where
  "truthy JUndefined = False"
| "truthy JNull = False"
| "truthy (JBool b) = b"
| "truthy (JNum x) = (x \<noteq> Zero \<and> x \<noteq> NegZero \<and> x \<noteq> NaN)"
| "truthy (JStr s) = (s \<noteq> [])"
| "truthy (JArr xs) = True"
| "truthy (JObj ps) = True"

text \<open>
  Reading a property. \<open>get_own\<close> reads an own property of an object, \<^verbatim>\<open>undefined\<close>
  when it has none of that name. \<open>get_member\<close> is \<^verbatim>\<open>v[k]\<close> on any value: a
  TypeError on \<^verbatim>\<open>undefined\<close> and \<^verbatim>\<open>null\<close>; on a string, number, boolean or
  array it is \<^verbatim>\<open>undefined\<close> for the names this file reads (\<^verbatim>\<open>user_claims\<close>,
  \<^verbatim>\<open>user_id\<close>, \<^verbatim>\<open>typ\<close>, \<^verbatim>\<open>val\<close>), none of which those values have or
  inherit.
\<close>

definition get_own :: "(string \<times> jsval) list \<Rightarrow> string \<Rightarrow> jsval" where
  "get_own ps k = (case map_of ps k of None \<Rightarrow> JUndefined | Some v \<Rightarrow> v)"

fun get_member :: "jsval \<Rightarrow> string \<Rightarrow> js_error + jsval" where
  "get_member JUndefined k = Inl TypeError"
| "get_member JNull k = Inl TypeError"
| "get_member (JObj ps) k = Inr (get_own ps k)"
| "get_member v k = Inr JUndefined"

text \<open>
  \<^verbatim>\<open>ToString\<close> of a value that came out of \<^verbatim>\<open>JSON.parse\<close>. An array is its
  elements joined by commas, \<^verbatim>\<open>undefined\<close> and \<^verbatim>\<open>null\<close> elements as the empty
  string. A plain object is \<^verbatim>\<open>[object Object]\<close>, unless an own property named
  \<^verbatim>\<open>toString\<close> (data, so not callable) hides the inherited method: then the
  conversion throws a TypeError.
\<close>

fun js_toString :: "jsval \<Rightarrow> js_error + string"
and join_elements :: "jsval list \<Rightarrow> js_error + string list" where
  "js_toString JUndefined = Inr ''undefined''"
| "js_toString JNull = Inr ''null''"
| "js_toString (JBool b) = Inr (if b then ''true'' else ''false'')"
| "js_toString (JNum x) = Inr (show_num x)"
| "js_toString (JStr s) = Inr s"
| "js_toString (JArr xs) =
     (case join_elements xs of Inl e \<Rightarrow> Inl e | Inr ts \<Rightarrow> Inr (intercalate '','' ts))"
| "js_toString (JObj ps) =
     (if map_of ps ''toString'' \<noteq> None then Inl TypeError else Inr ''[object Object]'')"
| "join_elements [] = Inr []"
| "join_elements (x # xs) =
     (case (if x = JUndefined \<or> x = JNull then Inr [] else js_toString x) of
        Inl e \<Rightarrow> Inl e
      | Inr t \<Rightarrow> (case join_elements xs of Inl e \<Rightarrow> Inl e | Inr ts \<Rightarrow> Inr (t # ts)))"

text \<open>
  The loose comparison \<^verbatim>\<open>x == 'name'\<close>. A string is compared as it is; an object or
  array is converted to a primitive first, which for these values is \<open>js_toString\<close>;
  \<^verbatim>\<open>undefined\<close> and \<^verbatim>\<open>null\<close> equal only each other; a number or boolean is
  compared with the numeric value of \<^verbatim>\<open>'name'\<close>, which is \<^verbatim>\<open>NaN\<close>.
\<close>

fun loosely_equals_name :: "jsval \<Rightarrow> js_error + bool" where
  "loosely_equals_name (JStr s) = Inr (s = ''name'')"
| "loosely_equals_name (JArr xs) =
     (case js_toString (JArr xs) of Inl e \<Rightarrow> Inl e | Inr t \<Rightarrow> Inr (t = ''name''))"
| "loosely_equals_name (JObj ps) =
     (case js_toString (JObj ps) of Inl e \<Rightarrow> Inl e | Inr t \<Rightarrow> Inr (t = ''name''))"
| "loosely_equals_name v = Inr False"

section \<open>The store\<close>

text \<open>
  The actions this file dispatches, named as in \<^verbatim>\<open>dfActions\<close> and the thunks
  imported from \<^verbatim>\<open>dfSlice\<close>. A table descriptor comes from the host as a value.
\<close>

type_synonym DictTable = jsval

datatype action =
    loadState jsval
  | loadTable DictTable
  | setVisViewMode string
  | resetState
  | fetchFieldSemanticType DictTable
  | fetchAvailableModels

text \<open>
  The store holds the state tree. \<^verbatim>\<open>dispatch\<close> hands the tree and the action to
  the reducer and stores the tree it returns. The reducer lives in \<^verbatim>\<open>dfSlice\<close>,
  which is not part of the sources: it is a parameter, a total function as the store's
  contract has it (\<^verbatim>\<open>dispatch\<close> does not throw). \<open>dispatched\<close> records the
  actions given to \<^verbatim>\<open>dispatch\<close>, in order. Dispatching a thunk is one action
  for the store; what the thunk dispatches when its request completes is a later action.
\<close>

record 'st store =
  getState :: 'st
  dispatched :: "action list"

definition dispatch ::
    "('st \<Rightarrow> action \<Rightarrow> 'st) \<Rightarrow> action \<Rightarrow> ('st, 'z) store_scheme \<Rightarrow> ('st, 'z) store_scheme" where
  "dispatch reducer a w =
     w\<lparr> getState := reducer (getState w) a, dispatched := dispatched w @ [a] \<rparr>"

section \<open>ImportStateButton and ExportStateButton\<close>

text \<open>
  What the import button can reach: the store, the file input behind
  \<^verbatim>\<open>inputRef\<close> (\<open>None\<close> when \<^verbatim>\<open>inputRef.current\<close> is null, otherwise the
  element's value), the console, and the \<^verbatim>\<open>file.text()\<close> promises that have not
  settled yet, each given by the text it resolves to.
\<close>

record 'st import_button = "'st store" +
  inputRef :: "string option"
  console_error :: "(string \<times> js_error) list"
  reading :: "string list"

text \<open>
  \<^verbatim>\<open>handleFileUpload\<close> (lines 97-115). \<open>files\<close> is \<^verbatim>\<open>event.target.files\<close>:
  \<open>None\<close> for null, otherwise the selected files, each given by its text. The loop
  only starts the reads; the reset of the input's value follows at once.
\<close>

definition handleFileUpload ::
    "string list option \<Rightarrow> 'st import_button \<Rightarrow> 'st import_button" where
  "handleFileUpload files w =
     (let w1 = (case files of None \<Rightarrow> w | Some fs \<Rightarrow> w\<lparr> reading := reading w @ fs \<rparr>)
      in case inputRef w1 of
           None \<Rightarrow> w1
         | Some v \<Rightarrow> w1\<lparr> inputRef := Some [] \<rparr>)"

text \<open>
  The callback given to \<^verbatim>\<open>file.text().then\<close> (lines 101-108):
  \<^verbatim>\<open>
  try {
      let savedState = JSON.parse(text);
      dispatch(dfActions.loadState(savedState));
  } catch (error) {
      console.error('Failed to parse state file:', error);
  }
  \<close>
\<close>

definition text_then ::
    "('st \<Rightarrow> action \<Rightarrow> 'st) \<Rightarrow> string \<Rightarrow> 'st import_button \<Rightarrow> 'st import_button" where
  "text_then reducer txt w =
     (case JSON_parse txt of
        Inl e \<Rightarrow> w\<lparr> console_error := console_error w @ [(''Failed to parse state file:'', e)] \<rparr>
      | Inr savedState \<Rightarrow> dispatch reducer (loadState savedState) w)"

text \<open>The pending reads settle, in the order they were started.\<close>

definition settle ::
    "('st \<Rightarrow> action \<Rightarrow> 'st) \<Rightarrow> 'st import_button \<Rightarrow> 'st import_button" where
  "settle reducer w = foldl (\<lambda>u txt. text_then reducer txt u) (w\<lparr> reading := [] \<rparr>) (reading w)"

text \<open>
  A failure reaches the user only through the state tree: a notice is a state field,
  and the tree changes only by a dispatched action.
\<close>

definition notice_surfaced :: "('st, 'z) store_scheme \<Rightarrow> ('st, 'z) store_scheme \<Rightarrow> bool" where
  "notice_surfaced w w' = (dispatched w' \<noteq> dispatched w)"


section \<open>AppFC\<close>

text \<open>
  The component's state next to the store: \<^verbatim>\<open>userInfo\<close> (\<open>None\<close> for
  \<^verbatim>\<open>undefined\<close>), \<^verbatim>\<open>popupConfig\<close>, and the module-level \<^verbatim>\<open>appConfig\<close> of
  \<^verbatim>\<open>utils\<close> that \<^verbatim>\<open>assignAppConfig\<close> writes. \<^verbatim>\<open>utils\<close> is not part of
  the sources, so the type of \<^verbatim>\<open>appConfig\<close> and \<^verbatim>\<open>assignAppConfig\<close> are
  parameters.
\<close>

record user_info =
  name :: jsval
  userId :: jsval

record ('st, 'cfg) app = "'st store" +
  userInfo :: "user_info option"
  popupConfig :: jsval
  appConfig :: 'cfg

subsection \<open>The subscription's callbacks (lines 313-322)\<close>

text \<open>
  \<^verbatim>\<open>
  loadData: (table: DictTable) => {
      dispatch(dfActions.loadTable(table));
      dispatch(fetchFieldSemanticType(table));
  }
  \<close>
\<close>

definition loadData ::
    "('st \<Rightarrow> action \<Rightarrow> 'st) \<Rightarrow> DictTable \<Rightarrow> ('st, 'cfg) app \<Rightarrow> ('st, 'cfg) app" where
  "loadData reducer table w =
     dispatch reducer (fetchFieldSemanticType table) (dispatch reducer (loadTable table) w)"

text \<open>
  \<^verbatim>\<open>
  setAppConfig: (config) => {
      assignAppConfig(config);
      config.popupConfig && setPopupConfig(config.popupConfig);
  }
  \<close>
  The configuration is an object, given by its properties.
\<close>

definition setAppConfig ::
    "((string \<times> jsval) list \<Rightarrow> 'cfg \<Rightarrow> 'cfg) \<Rightarrow> (string \<times> jsval) list
       \<Rightarrow> ('st, 'cfg) app \<Rightarrow> ('st, 'cfg) app" where
  "setAppConfig assignAppConfig config w =
     (let w1 = w\<lparr> appConfig := assignAppConfig config (appConfig w) \<rparr>
      in if truthy (get_own config ''popupConfig'')
         then w1\<lparr> popupConfig := get_own config ''popupConfig'' \<rparr>
         else w1)"

subsection \<open>The view-mode toggle (lines 387-394)\<close>

text \<open>
  \<^verbatim>\<open>
  onChange={(event, newViewMode: string | null) => {
      if (newViewMode === "gallery" || newViewMode === "carousel" || newViewMode === "database") {
          dispatch(dfActions.setVisViewMode(newViewMode));
      }
  }}
  \<close>
\<close>

definition onChange ::
    "('st \<Rightarrow> action \<Rightarrow> 'st) \<Rightarrow> string option \<Rightarrow> ('st, 'cfg) app \<Rightarrow> ('st, 'cfg) app" where
  "onChange reducer newViewMode w =
     (case newViewMode of
        None \<Rightarrow> w
      | Some m \<Rightarrow>
          if m = ''gallery'' \<or> m = ''carousel'' \<or> m = ''database''
          then dispatch reducer (setVisViewMode m) w
          else w)"

subsection \<open>The auth probe (lines 329-348)\<close>

text \<open>
  A promise is settled with \<open>Inr\<close> of its value or \<open>Inl\<close> of the reason of its
  rejection. \<^verbatim>\<open>then\<close> runs its callback on a value and passes a rejection on;
  \<^verbatim>\<open>catch\<close> runs its callback on a rejection and passes a value on. A callback that
  throws rejects the promise it feeds.
\<close>

definition promise_then :: "js_error + 'a \<Rightarrow> ('a \<Rightarrow> js_error + 'b) \<Rightarrow> js_error + 'b" where
  "promise_then p f = (case p of Inl e \<Rightarrow> Inl e | Inr x \<Rightarrow> f x)"

definition promise_catch :: "js_error + 'a \<Rightarrow> (js_error \<Rightarrow> js_error + 'a) \<Rightarrow> js_error + 'a" where
  "promise_catch p h = (case p of Inl e \<Rightarrow> h e | Inr x \<Rightarrow> Inr x)"

text \<open>
  What \<^verbatim>\<open>fetch('/.auth/me')\<close> comes to: a network failure, which rejects the promise
  with a TypeError, or a response, given by the text of its body.
\<close>

datatype fetch_outcome = NetworkFailure | Response string

definition fetch_me :: "fetch_outcome \<Rightarrow> js_error + string" where
  "fetch_me outcome = (case outcome of NetworkFailure \<Rightarrow> Inl TypeError | Response body \<Rightarrow> Inr body)"

text \<open>\<^verbatim>\<open>response.json()\<close>: the body parsed as JSON.\<close>

definition response_json :: "string \<Rightarrow> js_error + jsval" where
  "response_json body = JSON_parse body"

text \<open>
  \<^verbatim>\<open>authInfo['user_claims'].find((item: any) => item.typ == 'name')\<close>: only an array
  has a \<^verbatim>\<open>find\<close> method, and it stops at the first item the callback accepts or
  throws on.
\<close>

fun find_name :: "jsval list \<Rightarrow> js_error + jsval" where
  "find_name [] = Inr JUndefined"
| "find_name (item # items) =
     (case get_member item ''typ'' of
        Inl e \<Rightarrow> Inl e
      | Inr t \<Rightarrow>
          (case loosely_equals_name t of
             Inl e \<Rightarrow> Inl e
           | Inr b \<Rightarrow> if b then Inr item else find_name items))"

definition user_claims_find :: "jsval \<Rightarrow> js_error + jsval" where
  "user_claims_find claims = (case claims of JArr items \<Rightarrow> find_name items | _ \<Rightarrow> Inl TypeError)"

text \<open>\<^verbatim>\<open>found?.val || ''\<close>.\<close>

definition val_or_empty :: "jsval \<Rightarrow> js_error + jsval" where
  "val_or_empty found =
     (case (if found = JUndefined \<or> found = JNull then Inr JUndefined else get_member found ''val'') of
        Inl e \<Rightarrow> Inl e
      | Inr v \<Rightarrow> Inr (if truthy v then v else JStr []))"

text \<open>
  The second \<^verbatim>\<open>then\<close> callback (lines 332-343). Its value is the argument of
  \<^verbatim>\<open>setUserInfo\<close>, or \<open>None\<close> when the setter is not called.
\<close>

definition auth_result :: "jsval \<Rightarrow> js_error + user_info option" where
  "auth_result result =
     (case result of
        JArr (authInfo # others) \<Rightarrow>
          promise_then (get_member authInfo ''user_claims'') (\<lambda>claims.
          promise_then (user_claims_find claims) (\<lambda>found.
          promise_then (val_or_empty found) (\<lambda>nm.
          promise_then (get_member authInfo ''user_id'') (\<lambda>uid.
            Inr (Some \<lparr> name = nm, userId = uid \<rparr>)))))
      | _ \<Rightarrow> Inr None)"

text \<open>
  The whole chain \<^verbatim>\<open>fetch(...).then(...).then(...).catch(...)\<close> run on the component's
  state: \<open>Inr\<close> of the state when the last promise is fulfilled, \<open>Inl\<close> when it is
  rejected and the error escapes.
\<close>

definition auth_probe :: "fetch_outcome \<Rightarrow> ('st, 'cfg) app \<Rightarrow> js_error + ('st, 'cfg) app" where
  "auth_probe outcome w =
     promise_catch
       (promise_then (promise_then (fetch_me outcome) response_json) (\<lambda>result.
          promise_then (auth_result result) (\<lambda>u.
            Inr (case u of None \<Rightarrow> w | Some info \<Rightarrow> w\<lparr> userInfo := Some info \<rparr>))))
       (\<lambda>err. Inr w)"

section \<open>stringAvatar\<close>

text \<open>
  \<^verbatim>\<open>name.split(' ')\<close>: the pieces between single spaces. The result has one more
  element than the string has spaces, so it is never empty: \<^verbatim>\<open>''.split(' ')\<close> is
  \<^verbatim>\<open>['']\<close>.
\<close>

fun split_space :: "string \<Rightarrow> string list" where
  "split_space [] = [[]]"
| "split_space (c # cs) =
     (if c = CHR '' '' then [] # split_space cs
      else (case split_space cs of
              [] \<Rightarrow> [[c]]
            | w # ws \<Rightarrow> (c # w) # ws))"

text \<open>
  \<^verbatim>\<open>xs[i]\<close> on an array or a string: the element, or \<^verbatim>\<open>undefined\<close> (here
  \<open>None\<close>) out of range.
\<close>

definition index_at :: "'a list \<Rightarrow> nat \<Rightarrow> 'a option" where
  "index_at xs i = (if i < length xs then Some (xs ! i) else None)"

text \<open>
  \<^verbatim>\<open>s[0]\<close> where \<open>s\<close> is itself the result of an array read: reading a property
  of \<^verbatim>\<open>undefined\<close> throws a TypeError.
\<close>

definition first_char :: "string option \<Rightarrow> js_error + char option" where
  "first_char s = (case s of None \<Rightarrow> Inl TypeError | Some str \<Rightarrow> Inr (index_at str 0))"

text \<open>
  A template literal placeholder \<^verbatim>\<open>${c}\<close>: a one-character string is itself,
  \<^verbatim>\<open>undefined\<close> is the nine characters \<^verbatim>\<open>undefined\<close>.
\<close>

definition interpolate :: "char option \<Rightarrow> string" where
  "interpolate c = (case c of None \<Rightarrow> ''undefined'' | Some ch \<Rightarrow> [ch])"

text \<open>
  The body of the \<^verbatim>\<open>try\<close> block (lines 506-507):
  \<^verbatim>\<open>
  let nameSplit = name.split(' ')
  displayName = `${nameSplit[0][0]}${nameSplit.length > 1 ? nameSplit[nameSplit.length - 1][0] : ''}`
  \<close>
\<close>

definition initials :: "string \<Rightarrow> js_error + string" where
  "initials nm =
     (let nameSplit = split_space nm in
      case first_char (index_at nameSplit 0) of
        Inl e \<Rightarrow> Inl e
      | Inr a \<Rightarrow>
          if length nameSplit > 1 then
            (case first_char (index_at nameSplit (length nameSplit - 1)) of
               Inl e \<Rightarrow> Inl e
             | Inr b \<Rightarrow> Inr (interpolate a @ interpolate b))
          else Inr (interpolate a @ []))"

text \<open>
  The \<^verbatim>\<open>catch\<close> block (line 509): \<^verbatim>\<open>displayName = name ? name[0] : "?"\<close>.
  A string is truthy when it is not empty.
\<close>

definition fallback_name :: "string \<Rightarrow> string" where
  "fallback_name nm = (case nm of [] \<Rightarrow> ''?'' | c # _ \<Rightarrow> [c])"

record avatar_sx =
  bgcolor :: string
  width :: nat
  height :: nat
  margin :: string
  fontSize :: string

record avatar =
  sx :: avatar_sx
  children :: string

text \<open>
  \<^verbatim>\<open>stringAvatar\<close> (lines 503-521). The result is \<open>Inr\<close> of the returned object, or
  \<open>Inl\<close> of an exception that leaves the function.
\<close>

definition stringAvatar :: "string \<Rightarrow> js_error + avatar" where
  "stringAvatar nm =
     (let displayName = (case initials nm of Inr d \<Rightarrow> d | Inl e \<Rightarrow> fallback_name nm) in
      Inr \<lparr> sx = \<lparr> bgcolor = ''cornflowerblue'', width = 36, height = 36,
                     margin = ''auto'', fontSize = ''1rem'' \<rparr>,
            children = displayName \<rparr>)"

section \<open>The embedding subscription's lifetime (lines 312-327)\<close>

text \<open>
  An object has an identity: here the number it got when it was created. The page
  holds the bridge's registry (the identities of the registered subscription objects,
  in registration order), the count of objects created so far, and the record of the
  callback invocations: which subscription's callback ran, for which event.
\<close>

datatype host_event = notifyLoadData DictTable | notifyConfig "(string \<times> jsval) list"

record page =
  registry :: "nat list"
  created :: nat
  invoked :: "(nat \<times> host_event) list"

text \<open>
  Modelled from the spec: \<^verbatim>\<open>subscribe\<close> of the module \<^verbatim>\<open>embed\<close>, which is not
  part of the sources. It registers the subscription object; registering the same
  object twice does not duplicate delivery.
\<close>

definition subscribe :: "nat \<Rightarrow> nat list \<Rightarrow> nat list" where
  "subscribe subscription reg = (if subscription \<in> set reg then reg else reg @ [subscription])"

text \<open>
  Modelled from the spec: \<^verbatim>\<open>unsubscribe\<close> of the module \<^verbatim>\<open>embed\<close>, which is
  not part of the sources. It removes the subscription by identity; removing one that
  is not registered is a no-op.
\<close>

definition unsubscribe :: "nat \<Rightarrow> nat list \<Rightarrow> nat list" where
  "unsubscribe subscription reg = filter (\<lambda>s. s \<noteq> subscription) reg"

text \<open>
  Modelled from the spec: the delivery of an inbound event by the module
  \<^verbatim>\<open>embed\<close>, which is not part of the sources. Each currently registered
  subscription whose callback slot is present is invoked once, in registration order.
  The subscriptions of this page are those of \<open>AppFC\<close>, which have both slots.
\<close>

definition deliver :: "host_event \<Rightarrow> page \<Rightarrow> page" where
  "deliver ev w = w\<lparr> invoked := invoked w @ map (\<lambda>s. (s, ev)) (registry w) \<rparr>"

text \<open>
  The effect, from the code:
  \<^verbatim>\<open>
  useEffect(() => {
      const subscription: ActionSubscription = { loadData: ..., setAppConfig: ... };
      subscribe(subscription);
      return () => { unsubscribe(subscription); };
  }, []);
  \<close>
  It creates the subscription object, registers it, and returns the cleanup, a closure
  over that object: \<open>subscription_effect\<close> returns the captured object next to the
  page, and \<open>subscription_cleanup\<close> is the closure's body.
\<close>

definition subscription_effect :: "page \<Rightarrow> nat \<times> page" where
  "subscription_effect w =
     (let subscription = created w;
          w1 = w\<lparr> created := Suc (created w) \<rparr>
      in (subscription, w1\<lparr> registry := subscribe subscription (registry w1) \<rparr>))"

definition subscription_cleanup :: "nat \<Rightarrow> page \<Rightarrow> page" where
  "subscription_cleanup subscription w =
     w\<lparr> registry := unsubscribe subscription (registry w) \<rparr>"

text \<open>
  What can happen on the page: the host raises an event, an \<open>AppFC\<close> mounts (its
  effect runs), or a mounted \<open>AppFC\<close> is torn down (the cleanup of its effect runs).
\<close>

datatype page_event = HostEvent host_event | AppMounts | AppTornDown nat

fun page_step :: "page_event \<Rightarrow> page \<Rightarrow> page" where
  "page_step (HostEvent ev) w = deliver ev w"
| "page_step AppMounts w = snd (subscription_effect w)"
| "page_step (AppTornDown subscription) w = subscription_cleanup subscription w"

definition page_run :: "page_event list \<Rightarrow> page \<Rightarrow> page" where
  "page_run es w = foldl (\<lambda>u e. page_step e u) w es"

section \<open>Values that JSON represents as they are\<close>



text \<open>
  Where a token of the text can end or start: the character after a number literal,
  the character after a value inside an array or object, the first character of a
  value.
\<close>

definition number_end :: "string \<Rightarrow> bool" where
  "number_end rest =
     (case rest of [] \<Rightarrow> True
      | c # cs \<Rightarrow> \<not> is_digit c \<and> c \<noteq> CHR ''.'' \<and> c \<noteq> CHR ''e'' \<and> c \<noteq> CHR ''E'')"

definition value_end :: "string \<Rightarrow> bool" where
  "value_end rest =
     (case rest of [] \<Rightarrow> True | c # cs \<Rightarrow> c = CHR '','' \<or> c = CHR '']'' \<or> c = CHR ''}'')"

definition value_start :: "string \<Rightarrow> bool" where
  "value_start t = (case t of [] \<Rightarrow> False | c # cs \<Rightarrow> c \<in> set (CHR 0x22 # ''[{-0123456789tfn''))"

section \<open>The state tree and its reducer\<close>











section \<open>JSON.parse undoes JSON.stringify\<close>














lemma is_digit_simps [simp]:
  "is_digit (CHR ''0'')" "\<not> is_digit (CHR ''.'')" "\<not> is_digit (CHR ''e'')"
  "\<not> is_digit (CHR ''E'')" "\<not> is_digit (CHR ''-'')" "\<not> is_digit (CHR ''+'')"
  by (simp_all add: is_digit_def)








subsection \<open>Rounding to a double\<close>








subsection \<open>Seventeen digits are enough\<close>













subsection \<open>Number literals\<close>





lemma number_end_dot [simp]: "\<not> number_end (CHR ''.'' # s)" "\<not> number_end (CHR ''e'' # s)"
  by (simp_all add: number_end_def)






lemma value_end_simps [simp]:
  "value_end (CHR '','' # s)" "value_end (CHR '']'' # s)" "value_end (CHR ''}'' # s)" "value_end []"
  by (simp_all add: value_end_def)


lemma skip_ws_punct [simp]:
  "skip_ws (CHR '','' # s) = CHR '','' # s" "skip_ws (CHR '']'' # s) = CHR '']'' # s"
  "skip_ws (CHR ''}'' # s) = CHR ''}'' # s" "skip_ws (CHR '':'' # s) = CHR '':'' # s"
  "skip_ws (CHR 0x22 # s) = CHR 0x22 # s" "skip_ws [] = []"
  by (simp_all add: skip_ws_def is_ws_def)





















lemma value_start_simps [simp]:
  "value_start (CHR 0x22 # s)" "value_start (CHR ''['' # s)" "value_start (CHR ''{'' # s)"
  "value_start (CHR ''n'' # s)" "value_start (CHR ''t'' # s)" "value_start (CHR ''f'' # s)"
  by (simp_all add: value_start_def)








lemma skip_ws_length: "length (skip_ws s) \<le> length s"
  by (simp add: skip_ws_def length_dropWhile_le)

lemma skip_ws_cons_length: "skip_ws s = d # r \<Longrightarrow> length r < length s"
  using skip_ws_length [of s] by simp

lemma cons_char_length:
  "cons_char c p = Inr (str, r) \<Longrightarrow> \<exists>str'. p = Inr (str', r)"
  by (auto simp: cons_char_def split: sum.splits)

lemma parse_chars_consumes: "parse_chars s = Inr (str, r) \<Longrightarrow> length r < length s"
proof (induction s arbitrary: str rule: length_induct)
  case (1 s)
  note ih = 1(1) [rule_format]
  from 1(2) obtain c cs where s: "s = c # cs" by (cases s) auto
  show ?case
  proof (cases "c = CHR 0x22")
    case True
    with 1(2) s show ?thesis by simp
  next
    case nq: False
    show ?thesis
    proof (cases "c = CHR 0x5C")
      case False
      with nq 1(2) s obtain str' where "parse_chars cs = Inr (str', r)"
        by (auto split: if_splits dest: cons_char_length)
      from ih [OF _ this] s show ?thesis by simp
    next
      case True
      with nq 1(2) s obtain e cs1 where cs: "cs = e # cs1" by (cases cs) auto
      show ?thesis
      proof (cases "e = CHR ''u''")
        case eu: True
        with True nq 1(2) s cs obtain h1 h2 h3 h4 cs2 a b c' d where
          h: "cs1 = h1 # h2 # h3 # h4 # cs2"
             "hex_val h1 = Some a" "hex_val h2 = Some b" "hex_val h3 = Some c'" "hex_val h4 = Some d"
          by (auto split: list.splits option.splits)
        with True nq 1(2) s cs eu obtain str' where "parse_chars cs2 = Inr (str', r)"
          by (auto dest: cons_char_length)
        from ih [OF _ this] s cs h(1) show ?thesis by simp
      next
        case False
        with True nq 1(2) s cs obtain ch where u: "unescape e = Some ch"
          by (auto split: option.splits)
        with True nq 1(2) s cs False obtain str' where "parse_chars cs1 = Inr (str', r)"
          by (auto dest: cons_char_length)
        from ih [OF _ this] s cs show ?thesis by simp
      qed
    qed
  qed
qed

lemma parse_exponent_consumes:
  "parse_exponent neg ip fp s = Inr (x, r) \<Longrightarrow> length r \<le> length s"
  by (cases s)
     (auto simp: parse_exponent_def Let_def split: if_splits
           intro: order_trans [OF length_dropWhile_le] le_SucI)

lemma parse_fraction_consumes:
  "parse_fraction neg ip s = Inr (x, r) \<Longrightarrow> length r \<le> length s"
proof (cases s)
  case Nil
  then show "parse_fraction neg ip s = Inr (x, r) \<Longrightarrow> length r \<le> length s"
    by (auto simp: parse_fraction_def dest: parse_exponent_consumes)
next
  case (Cons c s1)
  assume p: "parse_fraction neg ip s = Inr (x, r)"
  show "length r \<le> length s"
  proof (cases "c = CHR ''.''")
    case True
    with p Cons have "parse_exponent neg ip (takeWhile is_digit s1) (dropWhile is_digit s1) = Inr (x, r)"
      by (auto simp: parse_fraction_def Let_def split: if_splits)
    from parse_exponent_consumes [OF this] have "length r \<le> length (dropWhile is_digit s1)" .
    also have "\<dots> \<le> length s1" by (rule length_dropWhile_le)
    finally show ?thesis using Cons by simp
  next
    case False
    with p Cons have "parse_exponent neg ip [] s = Inr (x, r)"
      by (auto simp: parse_fraction_def)
    from parse_exponent_consumes [OF this] show ?thesis .
  qed
qed

lemma parse_integer_consumes:
  assumes "parse_integer neg s = Inr (x, r)"
  shows "length r < length s"
proof -
  from assms have ne: "takeWhile is_digit s \<noteq> []"
    and p: "parse_fraction neg (takeWhile is_digit s) (dropWhile is_digit s) = Inr (x, r)"
    by (auto simp: parse_integer_def Let_def split: if_splits)
  have "length (takeWhile is_digit s) + length (dropWhile is_digit s) = length s"
    by (metis length_append takeWhile_dropWhile_id)
  with ne have "length (dropWhile is_digit s) < length s"
    by (cases "takeWhile is_digit s") auto
  with parse_fraction_consumes [OF p] show ?thesis by simp
qed

lemma parse_number_consumes: "parse_number s = Inr (x, r) \<Longrightarrow> length r < length s"
  by (cases s) (auto simp: parse_number_def split: if_splits dest: parse_integer_consumes)

lemma parse_scalar_consumes: "parse_scalar s = Inr (v, r) \<Longrightarrow> length r < length s"
  by (cases s)
     (auto simp: parse_scalar_def split: if_splits sum.splits
           dest: parse_chars_consumes parse_number_consumes)


lemma parse_consumes:
  "(\<forall>s v r. parse_value n s = Some (Inr (v, r)) \<longrightarrow> length r < length s)
   \<and> (\<forall>s acc v r. parse_elements n acc s = Some (Inr (v, r)) \<longrightarrow> length r < length s)
   \<and> (\<forall>s acc v r. parse_members n acc s = Some (Inr (v, r)) \<longrightarrow> length r < length s)"
proof (induction n)
  case 0
  show ?case by simp
next
  case (Suc n)
  note ihv = Suc [THEN conjunct1, rule_format]
  note ihe = Suc [THEN conjunct2, THEN conjunct1, rule_format]
  note ihm = Suc [THEN conjunct2, THEN conjunct2, rule_format]
  have v: "length r < length s" if p: "parse_value (Suc n) s = Some (Inr (v, r))" for s v r
  proof -
    from p obtain c cs where s: "s = c # cs" by (cases s) auto
    consider (arr) "c = CHR ''[''" | (obj) "c \<noteq> CHR ''[''" "c = CHR ''{''"
      | (sc) "c \<noteq> CHR ''[''" "c \<noteq> CHR ''{''" by blast
    then show ?thesis
    proof cases
      case arr
      with p s obtain d r' where d: "skip_ws cs = d # r'" by (cases "skip_ws cs") auto
      show ?thesis
      proof (cases "d = CHR '']''")
        case True
        with p s arr d have "r = r'" by simp
        with skip_ws_cons_length [OF d] s show ?thesis by simp
      next
        case False
        with p s arr d have "parse_elements n [] (d # r') = Some (Inr (v, r))" by simp
        from ihe [OF this] skip_ws_length [of cs] d s show ?thesis by simp
      qed
    next
      case obj
      with p s obtain d r' where d: "skip_ws cs = d # r'" by (cases "skip_ws cs") auto
      show ?thesis
      proof (cases "d = CHR ''}''")
        case True
        with p s obj d have "r = r'" by simp
        with skip_ws_cons_length [OF d] s show ?thesis by simp
      next
        case False
        with p s obj d have "parse_members n [] (d # r') = Some (Inr (v, r))" by simp
        from ihm [OF this] skip_ws_length [of cs] d s show ?thesis by simp
      qed
    next
      case sc
      with p s have "parse_scalar s = Inr (v, r)" by simp
      then show ?thesis by (rule parse_scalar_consumes)
    qed
  qed
  have e: "length r < length s" if p: "parse_elements (Suc n) acc s = Some (Inr (v, r))" for s acc v r
  proof -
    from p obtain x r1 where x: "parse_value n s = Some (Inr (x, r1))"
      by (auto split: option.splits sum.splits)
    from ihv [OF x] have l1: "length r1 < length s" .
    from p x obtain d r2 where d: "skip_ws r1 = d # r2" by (cases "skip_ws r1") auto
    from skip_ws_cons_length [OF d] l1 have l2: "length r2 < length s" by simp
    show ?thesis
    proof (cases "d = CHR '',''")
      case True
      with p x d have "parse_elements n (acc @ [x]) (skip_ws r2) = Some (Inr (v, r))" by simp
      from ihe [OF this] skip_ws_length [of r2] l2 show ?thesis by simp
    next
      case False
      with p x d have "r = r2" by (auto split: if_splits)
      with l2 show ?thesis by simp
    qed
  qed
  have m: "length r < length s" if p: "parse_members (Suc n) acc s = Some (Inr (v, r))" for s acc v r
  proof -
    from p obtain q s1 where s: "s = q # s1" "q = CHR 0x22" by (cases s) (auto split: if_splits)
    with p obtain k s2 where k: "parse_chars s1 = Inr (k, s2)"
      by (auto split: sum.splits)
    from parse_chars_consumes [OF k] have l2: "length s2 < length s1" .
    from p s k obtain col s3 where c: "skip_ws s2 = col # s3" "col = CHR '':''"
      by (cases "skip_ws s2") (auto split: if_splits)
    from skip_ws_cons_length [OF c(1)] l2 have l3: "length s3 < length s1" by simp
    from p s k c obtain x r1 where x: "parse_value n (skip_ws s3) = Some (Inr (x, r1))"
      by (auto split: option.splits sum.splits)
    from ihv [OF x] skip_ws_length [of s3] l3 have l4: "length r1 < length s1" by simp
    from p s k c x obtain d r2 where d: "skip_ws r1 = d # r2" by (cases "skip_ws r1") auto
    from skip_ws_cons_length [OF d] l4 have l5: "length r2 < length s1" by simp
    show ?thesis
    proof (cases "d = CHR '',''")
      case True
      with p s k c x d have "parse_members n (set_prop k x acc) (skip_ws r2) = Some (Inr (v, r))"
        by simp
      from ihm [OF this] skip_ws_length [of r2] l5 s show ?thesis by simp
    next
      case False
      with p s k c x d have "r = r2" by (auto split: if_splits)
      with l5 s show ?thesis by simp
    qed
  qed
  from v e m show ?case by blast
qed

lemma parse_fuel:
  "(\<forall>s. 2 * length s < n \<longrightarrow> parse_value n s \<noteq> None)
   \<and> (\<forall>s acc. 2 * length s + 1 < n \<longrightarrow> parse_elements n acc s \<noteq> None)
   \<and> (\<forall>s acc. 2 * length s + 1 < n \<longrightarrow> parse_members n acc s \<noteq> None)"
proof (induction n)
  case 0
  show ?case by simp
next
  case (Suc n)
  note ihv = Suc [THEN conjunct1, rule_format]
  note ihe = Suc [THEN conjunct2, THEN conjunct1, rule_format]
  note ihm = Suc [THEN conjunct2, THEN conjunct2, rule_format]
  note cv = parse_consumes [of n, THEN conjunct1, rule_format]
  have v: "parse_value (Suc n) s \<noteq> None" if n: "2 * length s < Suc n" for s
  proof (cases s)
    case Nil
    then show ?thesis by simp
  next
    case (Cons c cs)
    consider (arr) "c = CHR ''[''" | (obj) "c \<noteq> CHR ''[''" "c = CHR ''{''"
      | (sc) "c \<noteq> CHR ''[''" "c \<noteq> CHR ''{''" by blast
    then show ?thesis
    proof cases
      case arr
      show ?thesis
      proof (cases "skip_ws cs")
        case Nil
        with Cons arr show ?thesis by simp
      next
        case d: (Cons d r')
        have "2 * length (d # r') + 1 < n"
          using skip_ws_length [of cs] d Cons n by simp
        from ihe [OF this, of "[]"] Cons arr d show ?thesis by simp
      qed
    next
      case obj
      show ?thesis
      proof (cases "skip_ws cs")
        case Nil
        with Cons obj show ?thesis by simp
      next
        case d: (Cons d r')
        have "2 * length (d # r') + 1 < n"
          using skip_ws_length [of cs] d Cons n by simp
        from ihm [OF this, of "[]"] Cons obj d show ?thesis by simp
      qed
    next
      case sc
      with Cons show ?thesis by simp
    qed
  qed
  have e: "parse_elements (Suc n) acc s \<noteq> None" if n: "2 * length s + 1 < Suc n" for s acc
  proof (cases "parse_value n s")
    case None
    with ihv [of s] n show ?thesis by simp
  next
    case (Some res)
    show ?thesis
    proof (cases res)
      case (Inl err)
      with Some show ?thesis by simp
    next
      case (Inr vr)
      obtain x r1 where vr: "vr = (x, r1)" by (cases vr)
      from cv [of s x r1] Some Inr vr have l1: "length r1 < length s" by simp
      show ?thesis
      proof (cases "skip_ws r1")
        case Nil
        with Some Inr vr show ?thesis by simp
      next
        case d: (Cons d r2)
        from skip_ws_cons_length [OF d] l1 have "length r2 + 1 < length s" by simp
        with skip_ws_length [of r2] n have "2 * length (skip_ws r2) + 1 < n" by simp
        from ihe [OF this, of "acc @ [x]"] Some Inr vr d show ?thesis by simp
      qed
    qed
  qed
  have m: "parse_members (Suc n) acc s \<noteq> None" if n: "2 * length s + 1 < Suc n" for s acc
  proof (cases s)
    case Nil
    then show ?thesis by simp
  next
    case (Cons q s1)
    show ?thesis
    proof (cases "q = CHR 0x22")
      case False
      with Cons show ?thesis by simp
    next
      case q: True
      show ?thesis
      proof (cases "parse_chars s1")
        case (Inl err)
        with Cons q show ?thesis by simp
      next
        case (Inr ks)
        obtain k s2 where ks: "ks = (k, s2)" by (cases ks)
        from parse_chars_consumes [of s1 k s2] Inr ks have l2: "length s2 < length s1" by simp
        show ?thesis
        proof (cases "skip_ws s2")
          case Nil
          with Cons q Inr ks show ?thesis by simp
        next
          case c: (Cons col s3)
          from skip_ws_cons_length [OF c] l2 have l3: "length s3 + 1 < length s1" by simp
          show ?thesis
          proof (cases "col = CHR '':''")
            case False
            with Cons q Inr ks c show ?thesis by simp
          next
            case col: True
            have f3: "2 * length (skip_ws s3) < n"
              using skip_ws_length [of s3] l3 n Cons by simp
            show ?thesis
            proof (cases "parse_value n (skip_ws s3)")
              case None
              with ihv [OF f3] show ?thesis by simp
            next
              case (Some res)
              show ?thesis
              proof (cases res)
                case (Inl err)
                with Cons q Inr ks c col Some show ?thesis by simp
              next
                case vr: (Inr vr)
                obtain x r1 where xr: "vr = (x, r1)" by (cases vr)
                from cv [of "skip_ws s3" x r1] Some vr xr
                have l4: "length r1 < length (skip_ws s3)" by simp
                show ?thesis
                proof (cases "skip_ws r1")
                  case Nil
                  with Cons q Inr ks c col Some vr xr show ?thesis by simp
                next
                  case d: (Cons d r2)
                  from skip_ws_cons_length [OF d] l4 skip_ws_length [of s3] l3
                  have "length r2 + 1 < length s1" by simp
                  with skip_ws_length [of r2] n Cons
                  have "2 * length (skip_ws r2) + 1 < n" by simp
                  from ihm [OF this, of "set_prop k x acc"] Cons q Inr ks c col Some vr xr d
                  show ?thesis by simp
                qed
              qed
            qed
          qed
        qed
      qed
    qed
  qed
  from v e m show ?case by blast
qed

lemma parse_value_fuel: "parse_value (2 * length txt + 2) (skip_ws txt) \<noteq> None"
proof -
  have "2 * length (skip_ws txt) < 2 * length txt + 2"
    using skip_ws_length [of "txt"] by simp
  with parse_fuel [of "2 * length txt + 2"] show ?thesis by blast
qed

section \<open>Properties of stringAvatar\<close>

lemma split_space_nonempty: "split_space s \<noteq> []"
  by (induction s) (auto split: list.splits)

lemma initials_no_throw: "\<exists>d. initials nm = Inr d"
proof -
  obtain w ws where sp: "split_space nm = w # ws"
    using split_space_nonempty [of nm] by (cases "split_space nm") auto
  show ?thesis
  proof (cases ws)
    case Nil
    with sp show ?thesis
      by (simp add: initials_def first_char_def index_at_def)
  next
    case (Cons v vs)
    with sp show ?thesis
      by (simp add: initials_def first_char_def index_at_def Let_def)
  qed
qed

text \<open>
  Claim C10. For every string \<open>nm\<close>, the empty string and single-word names included,
  \<open>stringAvatar nm\<close> returns an object and no exception leaves the function; the
  displayed name is the computed initials, and where that computation throws it is the
  fallback name of the catch block. For the empty string the first character read is
  \<^verbatim>\<open>undefined\<close>, which the template literal prints as that word.
\<close>

theorem stringAvatar_total:
  "(\<exists>a. stringAvatar nm = Inr a \<and>
        children a = (case initials nm of Inr d \<Rightarrow> d | Inl e \<Rightarrow> fallback_name nm))
   \<and> (\<exists>a. stringAvatar [] = Inr a \<and> children a = ''undefined'')
   \<and> (\<exists>a. stringAvatar ''Ada'' = Inr a \<and> children a = ''A'')
   \<and> (\<exists>a. stringAvatar ''Ada Lovelace'' = Inr a \<and> children a = ''AL'')"
  by (simp add: stringAvatar_def initials_def first_char_def index_at_def interpolate_def)

section \<open>Properties of the subscription's callbacks and of the toggle\<close>

lemma dispatch_simps:
  "getState (dispatch reducer a w) = reducer (getState w) a"
  "dispatched (dispatch reducer a w) = dispatched w @ [a]"
  by (simp_all add: dispatch_def)

text \<open>
  Claim C3. The \<open>loadData\<close> callback gives exactly two actions to \<open>dispatch\<close>,
  \<open>loadTable table\<close> and then \<open>fetchFieldSemanticType table\<close>. The tree it leaves is
  the one the reducer returned for these two actions in this order, and nothing else of
  the component's state is written.
\<close>

theorem loadData_dispatches:
  "dispatched (loadData reducer table w) =
     dispatched w @ [loadTable table, fetchFieldSemanticType table]
   \<and> getState (loadData reducer table w) =
     foldl reducer (getState w) [loadTable table, fetchFieldSemanticType table]
   \<and> userInfo (loadData reducer table w) = userInfo w
   \<and> popupConfig (loadData reducer table w) = popupConfig w
   \<and> appConfig (loadData reducer table w) = appConfig w"
  by (simp add: loadData_def dispatch_def)

text \<open>
  Claim C4. A change of the toggle to \<open>gallery\<close>, \<open>carousel\<close> or \<open>database\<close>
  dispatches \<open>setVisViewMode\<close> with that value and nothing else; any other value,
  null included, dispatches nothing and leaves the store, hence the current view mode,
  as it was.
\<close>

theorem onChange_view_mode:
  "(m \<in> {''gallery'', ''carousel'', ''database''} \<longrightarrow>
      onChange reducer (Some m) w = dispatch reducer (setVisViewMode m) w
      \<and> dispatched (onChange reducer (Some m) w) = dispatched w @ [setVisViewMode m])
   \<and> (v \<notin> {Some ''gallery'', Some ''carousel'', Some ''database''} \<longrightarrow>
      onChange reducer v w = w)"
  by (auto simp: onChange_def dispatch_def split: option.splits)

theorem onChange_view_mode_witness:
  "dispatched (onChange (\<lambda>s a. case a of setVisViewMode x \<Rightarrow> x | _ \<Rightarrow> s) (Some ''gallery'')
        \<lparr> getState = ''carousel'', dispatched = [], userInfo = None,
          popupConfig = JObj [], appConfig = () \<rparr>) = [setVisViewMode ''gallery'']
   \<and> getState (onChange (\<lambda>s a. case a of setVisViewMode x \<Rightarrow> x | _ \<Rightarrow> s) (Some ''gallery'')
        \<lparr> getState = ''carousel'', dispatched = [], userInfo = None,
          popupConfig = JObj [], appConfig = () \<rparr>) = ''gallery''
   \<and> onChange (\<lambda>s a. case a of setVisViewMode x \<Rightarrow> x | _ \<Rightarrow> s) None
        \<lparr> getState = ''carousel'', dispatched = [], userInfo = None,
          popupConfig = JObj [], appConfig = () \<rparr>
      = \<lparr> getState = ''carousel'', dispatched = [], userInfo = None,
          popupConfig = JObj [], appConfig = () \<rparr>
   \<and> onChange (\<lambda>s a. case a of setVisViewMode x \<Rightarrow> x | _ \<Rightarrow> s) (Some ''table'')
        \<lparr> getState = ''carousel'', dispatched = [], userInfo = None,
          popupConfig = JObj [], appConfig = () \<rparr>
      = \<lparr> getState = ''carousel'', dispatched = [], userInfo = None,
          popupConfig = JObj [], appConfig = () \<rparr>"
  using onChange_view_mode [of "''gallery''" "\<lambda>s a. case a of setVisViewMode x \<Rightarrow> x | _ \<Rightarrow> s"
      "\<lparr> getState = ''carousel'', dispatched = [], userInfo = None,
         popupConfig = JObj [], appConfig = () \<rparr>" None]
    onChange_view_mode [of "''gallery''" "\<lambda>s a. case a of setVisViewMode x \<Rightarrow> x | _ \<Rightarrow> s"
      "\<lparr> getState = ''carousel'', dispatched = [], userInfo = None,
         popupConfig = JObj [], appConfig = () \<rparr>" "Some ''table''"]
  by (simp add: dispatch_def)

text \<open>
  Claim C7. For every configuration delivered to \<open>setAppConfig\<close>, the module's
  \<open>appConfig\<close> becomes what \<open>assignAppConfig\<close> makes of it with that configuration,
  and a \<open>popupConfig\<close> the configuration gives (an object, so a truthy value) is the
  component's \<open>popupConfig\<close> afterwards.
\<close>

theorem setAppConfig_stores:
  "appConfig (setAppConfig assignAppConfig config w) = assignAppConfig config (appConfig w)
   \<and> (truthy (get_own config ''popupConfig'') \<longrightarrow>
        popupConfig (setAppConfig assignAppConfig config w) = get_own config ''popupConfig'')
   \<and> (get_own config ''popupConfig'' = JObj p \<longrightarrow>
        popupConfig (setAppConfig assignAppConfig config w) = JObj p)"
  by (simp add: setAppConfig_def Let_def)

theorem setAppConfig_stores_witness:
  "appConfig (setAppConfig (\<lambda>c old. map fst c @ old)
        [(''serverUrl'', JStr ''http://host''), (''popupConfig'', JObj [(''allowPopup'', JBool True)])]
        \<lparr> getState = (), dispatched = [], userInfo = None,
          popupConfig = JObj [], appConfig = [] \<rparr>) = [''serverUrl'', ''popupConfig'']
   \<and> popupConfig (setAppConfig (\<lambda>c old. map fst c @ old)
        [(''serverUrl'', JStr ''http://host''), (''popupConfig'', JObj [(''allowPopup'', JBool True)])]
        \<lparr> getState = (), dispatched = [], userInfo = None,
          popupConfig = JObj [], appConfig = [] \<rparr>) = JObj [(''allowPopup'', JBool True)]"
  using setAppConfig_stores [of "\<lambda>c old. map fst c @ old"
      "[(''serverUrl'', JStr ''http://host''), (''popupConfig'', JObj [(''allowPopup'', JBool True)])]"
      "\<lparr> getState = (), dispatched = [], userInfo = None,
         popupConfig = JObj [], appConfig = [] \<rparr>" "[(''allowPopup'', JBool True)]"]
  by (simp add: get_own_def)

text \<open>
  Claim C8. A configuration whose \<open>popupConfig\<close> is absent, or present and falsy,
  leaves the stored \<open>popupConfig\<close> as it was; the stored value changes only to a
  \<open>popupConfig\<close> that the configuration has and that is truthy.
\<close>

theorem setAppConfig_keeps_popupConfig:
  "(map_of config ''popupConfig'' = None \<longrightarrow>
      popupConfig (setAppConfig assignAppConfig config w) = popupConfig w)
   \<and> (\<not> truthy (get_own config ''popupConfig'') \<longrightarrow>
      popupConfig (setAppConfig assignAppConfig config w) = popupConfig w)
   \<and> (popupConfig (setAppConfig assignAppConfig config w) \<noteq> popupConfig w \<longrightarrow>
      map_of config ''popupConfig'' \<noteq> None \<and> truthy (get_own config ''popupConfig'')
      \<and> popupConfig (setAppConfig assignAppConfig config w) = get_own config ''popupConfig'')"
  by (auto simp: setAppConfig_def Let_def get_own_def split: option.splits)

theorem setAppConfig_keeps_popupConfig_witness:
  "popupConfig (setAppConfig (\<lambda>c old. map fst c @ old) [(''serverUrl'', JStr ''http://host'')]
        \<lparr> getState = (), dispatched = [], userInfo = None,
          popupConfig = JObj [(''allowPopup'', JBool True)], appConfig = [] \<rparr>)
     = JObj [(''allowPopup'', JBool True)]
   \<and> popupConfig (setAppConfig (\<lambda>c old. map fst c @ old) [(''popupConfig'', JNull)]
        \<lparr> getState = (), dispatched = [], userInfo = None,
          popupConfig = JObj [(''allowPopup'', JBool True)], appConfig = [] \<rparr>)
     = JObj [(''allowPopup'', JBool True)]
   \<and> popupConfig (setAppConfig (\<lambda>c old. map fst c @ old) [(''popupConfig'', JObj [])]
        \<lparr> getState = (), dispatched = [], userInfo = None,
          popupConfig = JObj [(''allowPopup'', JBool True)], appConfig = [] \<rparr>)
     = JObj []"
  using setAppConfig_keeps_popupConfig [of "[(''serverUrl'', JStr ''http://host'')]"
      "\<lambda>c old. map fst c @ old"
      "\<lparr> getState = (), dispatched = [], userInfo = None,
         popupConfig = JObj [(''allowPopup'', JBool True)], appConfig = [] \<rparr>"]
    setAppConfig_keeps_popupConfig [of "[(''popupConfig'', JNull)]"
      "\<lambda>c old. map fst c @ old"
      "\<lparr> getState = (), dispatched = [], userInfo = None,
         popupConfig = JObj [(''allowPopup'', JBool True)], appConfig = [] \<rparr>"]
    setAppConfig_keeps_popupConfig [of "[(''popupConfig'', JObj [])]"
      "\<lambda>c old. map fst c @ old"
      "\<lparr> getState = (), dispatched = [], userInfo = None,
         popupConfig = JObj [(''allowPopup'', JBool True)], appConfig = [] \<rparr>"]
  by (simp add: get_own_def setAppConfig_def Let_def)

section \<open>Properties of the import button\<close>

lemma text_then_inputRef: "inputRef (text_then reducer txt w) = inputRef w"
  by (simp add: text_then_def dispatch_def split: sum.splits)

lemma foldl_text_then_inputRef:
  "inputRef (foldl (\<lambda>u txt. text_then reducer txt u) w txts) = inputRef w"
  by (induction txts arbitrary: w) (simp_all add: text_then_inputRef)

lemma settle_inputRef: "inputRef (settle reducer w) = inputRef w"
  by (simp add: settle_def foldl_text_then_inputRef)

lemma parse_truncated: "JSON_parse ''[{'' = Inl SyntaxError"
  by code_simp

lemma parse_empty_array: "JSON_parse ''[]'' = Inr (JArr [])"
  by code_simp

text \<open>
  Claim C2, as the code has it. When \<open>JSON.parse\<close> fails on the file's text, the
  callback dispatches nothing (so no \<open>loadState\<close>), the state tree is the one before,
  the exception is caught, and its only trace is one \<open>console.error\<close> entry: no notice
  reaches the user.
\<close>

theorem import_parse_failure:
  "JSON_parse txt = Inl e \<Longrightarrow>
     getState (text_then reducer txt w) = getState w
     \<and> dispatched (text_then reducer txt w) = dispatched w
     \<and> console_error (text_then reducer txt w)
         = console_error w @ [(''Failed to parse state file:'', e)]
     \<and> inputRef (text_then reducer txt w) = inputRef w
     \<and> \<not> notice_surfaced w (text_then reducer txt w)"
  by (simp add: text_then_def notice_surfaced_def)

theorem import_parse_failure_witness:
  "JSON_parse ''[{'' = Inl SyntaxError
   \<and> getState (text_then (\<lambda>s a. case a of loadState x \<Rightarrow> x | _ \<Rightarrow> s) ''[{''
        \<lparr> getState = JObj [], dispatched = [], inputRef = Some [],
          console_error = [], reading = [] \<rparr>) = JObj []
   \<and> dispatched (text_then (\<lambda>s a. case a of loadState x \<Rightarrow> x | _ \<Rightarrow> s) ''[{''
        \<lparr> getState = JObj [], dispatched = [], inputRef = Some [],
          console_error = [], reading = [] \<rparr>) = []
   \<and> console_error (text_then (\<lambda>s a. case a of loadState x \<Rightarrow> x | _ \<Rightarrow> s) ''[{''
        \<lparr> getState = JObj [], dispatched = [], inputRef = Some [],
          console_error = [], reading = [] \<rparr>)
       = [(''Failed to parse state file:'', SyntaxError)]"
  using import_parse_failure [OF parse_truncated,
      of "\<lambda>s a. case a of loadState x \<Rightarrow> x | _ \<Rightarrow> s"
      "\<lparr> getState = JObj [], dispatched = [], inputRef = Some [],
         console_error = [], reading = [] \<rparr>"]
  by (simp add: parse_truncated)

text \<open>
  The claim as the spec states it asks for a notice to the user. On the truncated
  snapshot \<open>[{\<close> the whole import (the change event and the settled read) leaves the
  tree untouched and dispatches nothing, so nothing is surfaced; the error is in the
  console only.
\<close>

theorem import_parse_failure_counterexample:
  "JSON_parse ''[{'' = Inl SyntaxError
   \<and> getState (settle (\<lambda>s a. case a of loadState x \<Rightarrow> x | _ \<Rightarrow> s)
        (handleFileUpload (Some [''[{''])
          \<lparr> getState = JObj [], dispatched = [], inputRef = Some ''session.dfstate'',
            console_error = [], reading = [] \<rparr>)) = JObj []
   \<and> \<not> notice_surfaced
        \<lparr> getState = JObj [], dispatched = [], inputRef = Some ''session.dfstate'',
          console_error = [], reading = [] \<rparr>
        (settle (\<lambda>s a. case a of loadState x \<Rightarrow> x | _ \<Rightarrow> s)
          (handleFileUpload (Some [''[{''])
            \<lparr> getState = JObj [], dispatched = [], inputRef = Some ''session.dfstate'',
              console_error = [], reading = [] \<rparr>))
   \<and> console_error (settle (\<lambda>s a. case a of loadState x \<Rightarrow> x | _ \<Rightarrow> s)
        (handleFileUpload (Some [''[{''])
          \<lparr> getState = JObj [], dispatched = [], inputRef = Some ''session.dfstate'',
            console_error = [], reading = [] \<rparr>))
       = [(''Failed to parse state file:'', SyntaxError)]"
  by (simp add: parse_truncated settle_def handleFileUpload_def text_then_def
        notice_surfaced_def)

text \<open>
  Claim C9. With the input element attached to \<open>inputRef\<close>, as it is whenever the
  element fires a change event, the handler leaves the element's value empty, whatever
  was selected: no file list, an empty one, or files whose text parses or does not. The
  reads that settle afterwards do not write it again, so no file name equals it and
  selecting the same file is a change again.
\<close>

theorem handleFileUpload_resets_input:
  "inputRef w = Some v \<Longrightarrow>
     inputRef (handleFileUpload files w) = Some []
     \<and> inputRef (settle reducer (handleFileUpload files w)) = Some []
     \<and> reading (handleFileUpload files w) = reading w @ (case files of None \<Rightarrow> [] | Some fs \<Rightarrow> fs)"
  by (simp add: settle_inputRef) (simp add: handleFileUpload_def split: option.splits)

theorem handleFileUpload_resets_input_witness:
  "inputRef (handleFileUpload None
        \<lparr> getState = JObj [], dispatched = [], inputRef = Some ''session.dfstate'',
          console_error = [], reading = [] \<rparr>) = Some []
   \<and> inputRef (settle (\<lambda>s a. case a of loadState x \<Rightarrow> x | _ \<Rightarrow> s)
        (handleFileUpload (Some [''[{'', ''[]''])
          \<lparr> getState = JObj [], dispatched = [], inputRef = Some ''session.dfstate'',
            console_error = [], reading = [] \<rparr>)) = Some []
   \<and> getState (settle (\<lambda>s a. case a of loadState x \<Rightarrow> x | _ \<Rightarrow> s)
        (handleFileUpload (Some [''[{'', ''[]''])
          \<lparr> getState = JObj [], dispatched = [], inputRef = Some ''session.dfstate'',
            console_error = [], reading = [] \<rparr>)) = JArr []"
  using handleFileUpload_resets_input [of
      "\<lparr> getState = JObj [], dispatched = [], inputRef = Some ''session.dfstate'',
         console_error = [], reading = [] \<rparr>" "''session.dfstate''" None]
    handleFileUpload_resets_input [of
      "\<lparr> getState = JObj [], dispatched = [], inputRef = Some ''session.dfstate'',
         console_error = [], reading = [] \<rparr>" "''session.dfstate''"
      "Some [''[{'', ''[]'']" "\<lambda>s a. case a of loadState x \<Rightarrow> x | _ \<Rightarrow> s"]
  by (simp add: parse_truncated parse_empty_array settle_def handleFileUpload_def
        text_then_def dispatch_def)

section \<open>Properties of the auth probe\<close>

text \<open>
  Claim C6. The chain of the auth probe always ends fulfilled: no error escapes it. It
  either leaves the component's state as it was or sets \<open>userInfo\<close>, and it sets
  \<open>userInfo\<close> only when the response's body parses to a non-empty array; the name
  then comes from the \<open>user_claims\<close> of the array's first element and the user id
  is that element's \<open>user_id\<close>. After a network failure, a body that does not
  parse, a result that is not an array, or an empty array, the state is unchanged, so
  an absent identity stays absent.
\<close>

theorem auth_probe_identity:
  "\<exists>w'. auth_probe outcome w = Inr w'
     \<and> (w' = w \<or>
          (\<exists>body x xs claims found u.
             outcome = Response body \<and> JSON_parse body = Inr (JArr (x # xs))
             \<and> get_member x ''user_claims'' = Inr claims
             \<and> user_claims_find claims = Inr found
             \<and> val_or_empty found = Inr (name u)
             \<and> get_member x ''user_id'' = Inr (userId u)
             \<and> w' = w\<lparr> userInfo := Some u \<rparr>))
     \<and> (outcome = NetworkFailure \<longrightarrow> w' = w)
     \<and> (\<forall>body. outcome = Response body \<longrightarrow>
            (\<forall>x xs. JSON_parse body \<noteq> Inr (JArr (x # xs))) \<longrightarrow> w' = w)"
proof (cases outcome)
  case NetworkFailure
  then show ?thesis
    by (simp add: auth_probe_def promise_then_def promise_catch_def fetch_me_def)
next
  case (Response body)
  show ?thesis
  proof (cases "JSON_parse body")
    case (Inl e)
    with Response show ?thesis
      by (simp add: auth_probe_def promise_then_def promise_catch_def fetch_me_def
            response_json_def)
  next
    case (Inr result)
    show ?thesis
    proof (cases "\<exists>x xs. result = JArr (x # xs)")
      case False
      then have "auth_result result = Inr None"
        by (auto simp: auth_result_def split: jsval.splits list.splits)
      with Response Inr False show ?thesis
        by (simp add: auth_probe_def promise_then_def promise_catch_def fetch_me_def
              response_json_def)
    next
      case True
      then obtain x xs where r: "result = JArr (x # xs)" by blast
      show ?thesis
      proof (cases "auth_result result")
        case (Inl e)
        with Response Inr show ?thesis
          by (simp add: auth_probe_def promise_then_def promise_catch_def fetch_me_def
                response_json_def)
      next
        case ar: (Inr u)
        show ?thesis
        proof (cases u)
          case None
          with ar Response Inr show ?thesis
            by (simp add: auth_probe_def promise_then_def promise_catch_def fetch_me_def
                  response_json_def)
        next
          case (Some info)
          from ar Some r obtain claims found where
            "get_member x ''user_claims'' = Inr claims"
            "user_claims_find claims = Inr found"
            "val_or_empty found = Inr (name info)"
            "get_member x ''user_id'' = Inr (userId info)"
            by (auto simp: auth_result_def promise_then_def split: sum.splits)
          with ar Some Response Inr r show ?thesis
            by (auto simp: auth_probe_def promise_then_def promise_catch_def fetch_me_def
                  response_json_def)
        qed
      qed
    qed
  qed
qed


lemma auth_body_parse:
  "JSON_parse (''[{'' @ quote ''user_id'' @ '':'' @ quote ''u1'' @ '','' @ quote ''user_claims''
      @ '':[{'' @ quote ''typ'' @ '':'' @ quote ''name'' @ '','' @ quote ''val'' @ '':''
      @ quote ''Ada'' @ ''}]}]'')
   = Inr (JArr [JObj [(''user_id'', JStr ''u1''),
                      (''user_claims'', JArr [JObj [(''typ'', JStr ''name''), (''val'', JStr ''Ada'')]])]])"
  by code_simp

lemma auth_body_not_json: "JSON_parse ''<html>'' = Inl SyntaxError"
  by code_simp

lemma auth_body_object: "JSON_parse ''{}'' = Inr (JObj [])"
  by code_simp

theorem auth_probe_identity_witness:
  "auth_probe (Response (''[{'' @ quote ''user_id'' @ '':'' @ quote ''u1'' @ '','' @ quote ''user_claims''
      @ '':[{'' @ quote ''typ'' @ '':'' @ quote ''name'' @ '','' @ quote ''val'' @ '':''
      @ quote ''Ada'' @ ''}]}]''))
      \<lparr> getState = (), dispatched = [], userInfo = None, popupConfig = JObj [], appConfig = () \<rparr>
    = Inr \<lparr> getState = (), dispatched = [],
            userInfo = Some \<lparr> name = JStr ''Ada'', userId = JStr ''u1'' \<rparr>,
            popupConfig = JObj [], appConfig = () \<rparr>
   \<and> auth_probe NetworkFailure
      \<lparr> getState = (), dispatched = [], userInfo = None, popupConfig = JObj [], appConfig = () \<rparr>
    = Inr \<lparr> getState = (), dispatched = [], userInfo = None, popupConfig = JObj [], appConfig = () \<rparr>
   \<and> auth_probe (Response ''[]'')
      \<lparr> getState = (), dispatched = [], userInfo = None, popupConfig = JObj [], appConfig = () \<rparr>
    = Inr \<lparr> getState = (), dispatched = [], userInfo = None, popupConfig = JObj [], appConfig = () \<rparr>
   \<and> auth_probe (Response ''{}'')
      \<lparr> getState = (), dispatched = [], userInfo = None, popupConfig = JObj [], appConfig = () \<rparr>
    = Inr \<lparr> getState = (), dispatched = [], userInfo = None, popupConfig = JObj [], appConfig = () \<rparr>
   \<and> auth_probe (Response ''<html>'')
      \<lparr> getState = (), dispatched = [], userInfo = None, popupConfig = JObj [], appConfig = () \<rparr>
    = Inr \<lparr> getState = (), dispatched = [], userInfo = None, popupConfig = JObj [], appConfig = () \<rparr>"
  using auth_probe_identity [of "Response (''[{'' @ quote ''user_id'' @ '':'' @ quote ''u1'' @ '','' @ quote ''user_claims''
      @ '':[{'' @ quote ''typ'' @ '':'' @ quote ''name'' @ '','' @ quote ''val'' @ '':''
      @ quote ''Ada'' @ ''}]}]'')"
      "\<lparr> getState = (), dispatched = [], userInfo = None, popupConfig = JObj [], appConfig = () \<rparr>"]
    auth_probe_identity [of NetworkFailure
      "\<lparr> getState = (), dispatched = [], userInfo = None, popupConfig = JObj [], appConfig = () \<rparr>"]
    auth_probe_identity [of "Response ''[]''"
      "\<lparr> getState = (), dispatched = [], userInfo = None, popupConfig = JObj [], appConfig = () \<rparr>"]
    auth_probe_identity [of "Response ''{}''"
      "\<lparr> getState = (), dispatched = [], userInfo = None, popupConfig = JObj [], appConfig = () \<rparr>"]
    auth_probe_identity [of "Response ''<html>''"
      "\<lparr> getState = (), dispatched = [], userInfo = None, popupConfig = JObj [], appConfig = () \<rparr>"]
  by (simp only: auth_probe_def fetch_me_def promise_then_def response_json_def
        fetch_outcome.case sum.case auth_body_parse auth_body_not_json auth_body_object
        parse_empty_array)
     (simp add: promise_then_def promise_catch_def auth_result_def user_claims_find_def
        val_or_empty_def get_own_def)

section \<open>Properties of the subscription's lifetime\<close>

lemma page_step_absent:
  assumes "s < created w" "s \<notin> set (registry w)"
  shows "s < created (page_step e w) \<and> s \<notin> set (registry (page_step e w))
         \<and> (\<exists>new. invoked (page_step e w) = invoked w @ new \<and> s \<notin> fst ` set new)"
proof (cases e)
  case (HostEvent ev)
  with assms show ?thesis
    by (auto simp: deliver_def)
next
  case AppMounts
  with assms show ?thesis
    by (auto simp: subscription_effect_def subscribe_def Let_def)
next
  case (AppTornDown k)
  with assms show ?thesis
    by (auto simp: subscription_cleanup_def unsubscribe_def)
qed

lemma page_run_absent:
  "s < created w \<Longrightarrow> s \<notin> set (registry w) \<Longrightarrow>
     s < created (page_run es w) \<and> s \<notin> set (registry (page_run es w))
     \<and> (\<exists>new. invoked (page_run es w) = invoked w @ new \<and> s \<notin> fst ` set new)"
proof (induction es arbitrary: w)
  case Nil
  then show ?case by (simp add: page_run_def)
next
  case (Cons e es)
  from page_step_absent [OF Cons.prems, of e] obtain new1 where
    a: "s < created (page_step e w)" "s \<notin> set (registry (page_step e w))"
       "invoked (page_step e w) = invoked w @ new1" "s \<notin> fst ` set new1"
    by blast
  from Cons.IH [OF a(1) a(2)] obtain new2 where
    b: "s < created (page_run es (page_step e w))"
       "s \<notin> set (registry (page_run es (page_step e w)))"
       "invoked (page_run es (page_step e w)) = invoked (page_step e w) @ new2"
       "s \<notin> fst ` set new2"
    by blast
  have run: "page_run (e # es) w = page_run es (page_step e w)"
    by (simp add: page_run_def)
  have "invoked (page_run (e # es) w) = invoked w @ (new1 @ new2)"
    using a(3) b(3) run by simp
  moreover have "s \<notin> fst ` set (new1 @ new2)"
    using a(4) b(4) by auto
  ultimately show ?case
    using b(1) b(2) run by metis
qed

lemma page_run_created: "created w \<le> created (page_run es w)"
proof (induction es arbitrary: w)
  case Nil
  then show ?case by (simp add: page_run_def)
next
  case (Cons e es)
  have "created w \<le> created (page_step e w)"
    by (cases e) (simp_all add: deliver_def subscription_effect_def Let_def
          subscription_cleanup_def)
  also have "\<dots> \<le> created (page_run es (page_step e w))"
    by (rule Cons.IH)
  finally show ?case by (simp add: page_run_def)
qed

text \<open>
  Claim C5. The effect registers a new subscription object \<open>s\<close> and its cleanup
  unsubscribes that same object. Whatever happens on the page while the component is
  mounted (\<open>es1\<close>), once the cleanup has run the object is out of the registry, and
  whatever happens afterwards (\<open>es2\<close>: host events, other components mounting or
  being torn down) it is never registered again and none of the callback invocations
  that follow is one of its callbacks.
\<close>

theorem subscription_removed_at_teardown:
  assumes "subscription_effect w = (s, w1)"
      and "w3 = subscription_cleanup s (page_run es1 w1)"
  shows "registry w1 = subscribe s (registry w)
       \<and> s \<in> set (registry w1)
       \<and> registry w3 = unsubscribe s (registry (page_run es1 w1))
       \<and> s \<notin> set (registry w3)
       \<and> s \<notin> set (registry (page_run es2 w3))
       \<and> take (length (invoked w3)) (invoked (page_run es2 w3)) = invoked w3
       \<and> s \<notin> fst ` set (drop (length (invoked w3)) (invoked (page_run es2 w3)))"
proof -
  from assms(1) have s: "s = created w"
    and w1: "w1 = w\<lparr> created := Suc (created w), registry := subscribe s (registry w) \<rparr>"
    by (auto simp: subscription_effect_def Let_def)
  have "s < created w1" using s w1 by simp
  also have "created w1 \<le> created (page_run es1 w1)" by (rule page_run_created)
  finally have c3: "s < created w3"
    using assms(2) by (simp add: subscription_cleanup_def)
  have r3: "s \<notin> set (registry w3)"
    using assms(2) by (simp add: subscription_cleanup_def unsubscribe_def)
  from page_run_absent [OF c3 r3, of es2] obtain new where
    n: "s \<notin> set (registry (page_run es2 w3))"
       "invoked (page_run es2 w3) = invoked w3 @ new" "s \<notin> fst ` set new"
    by blast
  have "registry w1 = subscribe s (registry w)" using w1 by simp
  moreover have "s \<in> set (registry w1)" using w1 by (simp add: subscribe_def)
  moreover have "registry w3 = unsubscribe s (registry (page_run es1 w1))"
    using assms(2) by (simp add: subscription_cleanup_def)
  ultimately show ?thesis using r3 n by simp
qed

theorem subscription_removed_at_teardown_witness:
  "subscription_effect \<lparr> registry = [], created = 0, invoked = [] \<rparr>
       = (0, \<lparr> registry = [0], created = 1, invoked = [] \<rparr>)
   \<and> invoked (page_run [HostEvent (notifyLoadData JNull), AppMounts] \<lparr> registry = [0], created = 1, invoked = [] \<rparr>)
       = [(0, notifyLoadData JNull)]
   \<and> invoked (page_run [HostEvent (notifyConfig []), AppMounts, HostEvent (notifyLoadData JNull)]
        (subscription_cleanup 0
          (page_run [HostEvent (notifyLoadData JNull), AppMounts] \<lparr> registry = [0], created = 1, invoked = [] \<rparr>)))
       = [(0, notifyLoadData JNull), (1, notifyConfig []), (1, notifyLoadData JNull), (2, notifyLoadData JNull)]
   \<and> 0 \<notin> fst ` set (drop 1 (invoked (page_run [HostEvent (notifyConfig []), AppMounts, HostEvent (notifyLoadData JNull)]
        (subscription_cleanup 0
          (page_run [HostEvent (notifyLoadData JNull), AppMounts] \<lparr> registry = [0], created = 1, invoked = [] \<rparr>)))))"
  using subscription_removed_at_teardown [of "\<lparr> registry = [], created = 0, invoked = [] \<rparr>" 0
      "\<lparr> registry = [0], created = 1, invoked = [] \<rparr>"
      "subscription_cleanup 0
          (page_run [HostEvent (notifyLoadData JNull), AppMounts] \<lparr> registry = [0], created = 1, invoked = [] \<rparr>)"
      "[HostEvent (notifyLoadData JNull), AppMounts]"
      "[HostEvent (notifyConfig []), AppMounts, HostEvent (notifyLoadData JNull)]"]
  by (simp add: subscription_effect_def subscribe_def unsubscribe_def
        subscription_cleanup_def page_run_def deliver_def Let_def)

section \<open>The session snapshot round trip\<close>














end
